theory Spec2Isabelle
  imports Main "HOL-Library.Word" "HOL-Library.Multiset" "HOL-Library.Char_ord" "HOL-Library.List_Lexorder"
begin

section \<open>Go primitives used by the printers\<close>

text \<open>
  Go strings are byte strings: \<^typ>\<open>string\<close> (a list of \<^typ>\<open>char\<close>) with the
  lexicographic byte order of \<open>HOL-Library.List_Lexorder\<close> and \<open>HOL-Library.Char_ord\<close>.
  An \<open>int32\<close> field is a \<^typ>\<open>32 word\<close>, read with \<^const>\<open>sint\<close>. Go's \<open>int\<close> is
  64 bits wide; the counters of the printers are sums of \<open>int32\<close> values and slice
  lengths, one per element of a slice held in memory, so they stay far below \<open>2^63\<close> and
  are modelled as \<^typ>\<open>int\<close>.
\<close>

type_synonym int32 = "32 word"

definition digit :: "nat \<Rightarrow> char" where
  "digit d = char_of (48 + d)"

fun utoa :: "nat \<Rightarrow> string" where
  "utoa n = (if n < 10 then [digit n] else utoa (n div 10) @ [digit (n mod 10)])"

declare utoa.simps [simp del]

text \<open>\<open>strconv.Itoa\<close> and the verb \<open>%d\<close> of \<open>fmt.Sprintf\<close>: decimal, with a sign.\<close>

definition Itoa :: "int \<Rightarrow> string" where
  "Itoa i = (if i < 0 then CHR ''-'' # utoa (nat (- i)) else utoa (nat i))"

text \<open>\<open>strings.Join\<close>.\<close>

fun Join :: "string list \<Rightarrow> string \<Rightarrow> string" where
  "Join [] sep = []"
| "Join [x] sep = x"
| "Join (x # y # ys) sep = x @ sep @ Join (y # ys) sep"

section \<open>CertificateSigningRequest status\<close>

text \<open>
  The condition types of \<open>k8s.io/api/certificates/v1\<close> are string constants of that
  library, with the values it gives them.
\<close>

definition CertificateApproved :: string where "CertificateApproved = ''Approved''"
definition CertificateDenied :: string where "CertificateDenied = ''Denied''"
definition CertificateFailed :: string where "CertificateFailed = ''Failed''"

record CertificateSigningRequestCondition =
  csrc_Type :: string
  csrc_Status :: string
  csrc_Reason :: string
  csrc_Message :: string

record CertificateSigningRequest =
  csr_Name :: string
  csr_Conditions :: "CertificateSigningRequestCondition list"
  csr_Certificate :: "8 word list"

text \<open>
  The loop of \<open>extractCSRStatus\<close> over the conditions: the state is the triple
  \<open>(approved, denied, failed)\<close>, and the \<open>switch\<close> takes the first case that matches.
\<close>

fun csrConditionsLoop ::
  "CertificateSigningRequestCondition list \<Rightarrow> bool \<times> bool \<times> bool \<Rightarrow> bool \<times> bool \<times> bool" where
  "csrConditionsLoop [] s = s"
| "csrConditionsLoop (c # cs) (approved, denied, failed) =
     csrConditionsLoop cs
       (if csrc_Type c = CertificateApproved then (True, denied, failed)
        else if csrc_Type c = CertificateDenied then (approved, True, failed)
        else if csrc_Type c = CertificateFailed then (approved, denied, True)
        else (approved, denied, failed))"

definition extractCSRStatus :: "CertificateSigningRequest \<Rightarrow> string" where
  "extractCSRStatus csr =
     (case csrConditionsLoop (csr_Conditions csr) (False, False, False) of
        (approved, denied, failed) \<Rightarrow>
          (let status = [];
               status = (if denied then status @ ''Denied''
                         else if approved then status @ ''Approved''
                         else status @ ''Pending'');
               status = (if failed then status @ '',Failed'' else status);
               status = (if length (csr_Certificate csr) > 0 then status @ '',Issued'' else status)
           in status))"

section \<open>Time\<close>

text \<open>
  A \<open>time.Time\<close> (and the \<open>metav1.Time\<close> wrapping it) is the number of nanoseconds
  since the zero instant, so \<open>IsZero\<close> is equality with 0 and \<open>Before\<close> is \<open><\<close>.
  A \<open>*metav1.Time\<close> is an option; \<open>IsZero\<close> of the nil pointer is true. A
  \<open>time.Duration\<close> is an \<open>int64\<close> of nanoseconds and \<open>Time.Sub\<close> saturates at its
  bounds. The wall clock read by \<open>time.Since\<close> and the library function
  \<open>duration.HumanDuration\<close> (of \<open>k8s.io/apimachinery\<close>) are parameters of the model,
  as is \<open>metav1.FormatLabelSelector\<close>.
\<close>

type_synonym Time = int

definition IsZero :: "Time option \<Rightarrow> bool" where
  "IsZero t = (case t of None \<Rightarrow> True | Some u \<Rightarrow> u = 0)"

definition maxDuration :: int where "maxDuration = 2 ^ 63 - 1"
definition minDuration :: int where "minDuration = - (2 ^ 63)"

definition Sub :: "Time \<Rightarrow> Time \<Rightarrow> int" where
  "Sub t u = (let d = t - u in
                if d > maxDuration then maxDuration
                else if d < minDuration then minDuration
                else d)"

record LabelSelector =
  MatchLabels :: "(string \<times> string) list"
  MatchExpressions :: "(string \<times> string \<times> string list) list"

record Env =
  now :: Time
  HumanDuration :: "int \<Rightarrow> string"
  FormatLabelSelector :: "LabelSelector option \<Rightarrow> string"

definition Since :: "Env \<Rightarrow> Time \<Rightarrow> int" where
  "Since env t = Sub (now env) t"

definition translateTimestampSince :: "Env \<Rightarrow> Time \<Rightarrow> string" where
  "translateTimestampSince env timestamp =
     (if timestamp = 0 then ''<unknown>''
      else HumanDuration env (Since env timestamp))"

section \<open>Tables\<close>

text \<open>A cell is an \<open>interface{}\<close> holding a string, an \<open>int64\<close> or a bool.\<close>

datatype Cell = S string | I int | B bool

record TableRowCondition =
  trc_Type :: string
  trc_Status :: string
  trc_Reason :: string
  trc_Message :: string

record TableRow =
  Cells :: "Cell list"
  Conditions :: "TableRowCondition list"

record TableColumnDefinition =
  col_Name :: string
  col_Type :: string
  col_Format :: string
  col_Description :: string
  col_Priority :: int32

record Table =
  ResourceVersion :: string
  Continue :: string
  RemainingItemCount :: "64 word option"
  ColumnDefinitions :: "TableColumnDefinition list"
  Rows :: "TableRow list"

section \<open>The handler registry and the table generator\<close>

text \<open>
  A \<open>reflect.Type\<close>: the two types the validation compares with, and any other type by
  its name.
\<close>

datatype GoType = TableRowSlice | ErrorInterface | Named string

text \<open>
  The errors of the generator, one constructor per \<open>fmt.Errorf\<close> of the source:
  \<^item> \<open>NotAFunction\<close>: "invalid print handler. ... is not a function";
  \<^item> \<open>WrongArity\<close>: "invalid print handler.Must accept 1 parameters and return 2 value";
  \<^item> \<open>WrongSignature t\<close>: "invalid print handler. The expected signature is: func handler(obj t) ([]metav1.TableRow, error)";
  \<^item> \<open>DuplicatePrinter t\<close>: "registered duplicate printer for t";
  \<^item> \<open>NoTableHandler t\<close>: "no table handler registered for this type t";
  \<^item> \<open>PrintError m\<close>: an error returned by a print function;
  \<^item> \<open>Panic\<close>: a run-time panic of \<open>reflect\<close> (calling a value that is not a
    function of the validated shape).
\<close>

datatype error =
    NotAFunction
  | WrongArity
  | WrongSignature GoType
  | DuplicatePrinter GoType
  | NoTableHandler GoType
  | PrintError string
  | Panic

text \<open>
  The \<open>printFunc any\<close> handed to \<open>TableHandler\<close>, as \<open>reflect\<close> sees it: not a
  function, or a function with its parameter types, its result types and its behaviour
  when called with one object (only a function of the validated shape is ever called).
\<close>

datatype 'o GoValue =
    NonFunc
  | Func (ins: "GoType list") (outs: "GoType list")
         (call: "'o \<Rightarrow> TableRow list \<times> error option")

text \<open>
  A \<open>runtime.Object\<close>: its dynamic type, what \<open>meta.ListAccessor\<close> and
  \<open>meta.CommonAccessor\<close> find in it, and the object itself.
\<close>

datatype Meta =
    ListMeta string string "64 word option"
  | ObjectMeta string
  | NoMeta

record 'o Object =
  TypeOf :: GoType
  Accessor :: Meta
  Value :: 'o

record 'o handlerEntry =
  columnDefinitions :: "TableColumnDefinition list"
  printFunc :: "'o GoValue"

type_synonym 'o HumanReadableGenerator = "GoType \<rightharpoonup> 'o handlerEntry"

definition NewTableGenerator :: "'o HumanReadableGenerator" where
  "NewTableGenerator = Map.empty"

definition ValidateRowPrintHandlerFunc :: "'o GoValue \<Rightarrow> error option" where
  "ValidateRowPrintHandlerFunc pf =
     (case pf of
        NonFunc \<Rightarrow> Some NotAFunction
      | Func params results f \<Rightarrow>
          if length params \<noteq> 1 \<or> length results \<noteq> 2 then Some WrongArity
          else if results ! 0 \<noteq> TableRowSlice \<or> results ! 1 \<noteq> ErrorInterface
          then Some (WrongSignature (params ! 0))
          else None)"

text \<open>
  \<open>TableHandler\<close> returns its error and the generator after the call (the receiver is
  a pointer and the map is updated in place).
\<close>

definition TableHandler ::
  "'o HumanReadableGenerator \<Rightarrow> TableColumnDefinition list \<Rightarrow> 'o GoValue
     \<Rightarrow> error option \<times> 'o HumanReadableGenerator" where
  "TableHandler h cols pf =
     (case ValidateRowPrintHandlerFunc pf of
        Some err \<Rightarrow> (Some err, h)
      | None \<Rightarrow>
          (let entry = \<lparr>columnDefinitions = cols, printFunc = pf\<rparr>;
               objType = ins pf ! 0
           in if h objType \<noteq> None then (Some (DuplicatePrinter objType), h)
              else (None, h(objType \<mapsto> entry))))"

text \<open>
  \<open>reflect.Value.Call\<close> with one argument, followed by the reads of both results. The
  handler map is private to the generator and written by \<open>TableHandler\<close> only, so every
  value called has passed \<open>ValidateRowPrintHandlerFunc\<close>; for any other value the call
  is a panic of \<open>reflect\<close>.
\<close>

definition Call :: "'o GoValue \<Rightarrow> 'o \<Rightarrow> error + (TableRow list \<times> error option)" where
  "Call pf arg =
     (case pf of
        NonFunc \<Rightarrow> Inl Panic
      | Func params results f \<Rightarrow>
          if ValidateRowPrintHandlerFunc pf = None then Inr (f arg) else Inl Panic)"

text \<open>The loop of \<open>GenerateTable\<close> over the column definitions of the handler.\<close>

fun columnsLoop ::
  "TableColumnDefinition list \<Rightarrow> TableColumnDefinition list \<Rightarrow> TableColumnDefinition list" where
  "columnsLoop [] columns = columns"
| "columnsLoop (c # cs) columns =
     (if col_Priority c \<noteq> 0 then columnsLoop cs columns
      else columnsLoop cs (columns @ [c]))"

definition GenerateTable :: "'o HumanReadableGenerator \<Rightarrow> 'o Object \<Rightarrow> error + Table" where
  "GenerateTable h obj =
     (let t = TypeOf obj in
      case h t of
        None \<Rightarrow> Inl (NoTableHandler t)
      | Some handler \<Rightarrow>
          (case Call (printFunc handler) (Value obj) of
             Inl p \<Rightarrow> Inl p
           | Inr results \<Rightarrow>
               (case snd results of
                  Some err \<Rightarrow> Inl err
                | None \<Rightarrow>
                    (let columns = columnsLoop (columnDefinitions handler) [];
                         table = \<lparr>ResourceVersion = [], Continue = [], RemainingItemCount = None,
                                  ColumnDefinitions = columns, Rows = fst results\<rparr>
                     in case Accessor obj of
                          ListMeta rv cont remaining \<Rightarrow>
                            Inr (table\<lparr>ResourceVersion := rv, Continue := cont,
                                       RemainingItemCount := remaining\<rparr>)
                        | ObjectMeta rv \<Rightarrow> Inr (table\<lparr>ResourceVersion := rv\<rparr>)
                        | NoMeta \<Rightarrow> Inr table))))"

section \<open>Truncated lists\<close>

definition listWithMoreString :: "string list \<Rightarrow> bool \<Rightarrow> int \<Rightarrow> int \<Rightarrow> string" where
  "listWithMoreString list isMore cnt maxi =
     (let ret = Join list '','' in
      if isMore then ret @ '' + '' @ Itoa (cnt - maxi) @ '' more...''
      else if ret = [] then ''<unset>''
      else ret)"

record Endpoint =
  Addresses :: "string list"

text \<open>
  The two nested loops of \<open>formatDiscoveryEndpoints\<close>; the state is
  \<open>(list, more, count)\<close>.
\<close>

fun addressesLoop ::
  "int \<Rightarrow> string list \<Rightarrow> string list \<times> bool \<times> int \<Rightarrow> string list \<times> bool \<times> int" where
  "addressesLoop maximum [] s = s"
| "addressesLoop maximum (address # rest) (list, isMore, cnt) =
     addressesLoop maximum rest
       (if int (length list) < maximum then (list @ [address], isMore, cnt + 1)
        else if int (length list) = maximum then (list, True, cnt + 1)
        else (list, isMore, cnt + 1))"

fun endpointsLoop ::
  "int \<Rightarrow> Endpoint list \<Rightarrow> string list \<times> bool \<times> int \<Rightarrow> string list \<times> bool \<times> int" where
  "endpointsLoop maximum [] s = s"
| "endpointsLoop maximum (endpoint # rest) s =
     endpointsLoop maximum rest (addressesLoop maximum (Addresses endpoint) s)"

definition formatDiscoveryEndpoints :: "Endpoint list \<Rightarrow> string" where
  "formatDiscoveryEndpoints endpoints =
     (let maximum = 3 in
      case endpointsLoop maximum endpoints ([], False, 0) of
        (list, isMore, cnt) \<Rightarrow> listWithMoreString list isMore cnt maximum)"

section \<open>Jobs\<close>

text \<open>
  Condition types and statuses are string types of \<open>k8s.io/api\<close>; the constants below
  carry the values that library gives them.
\<close>

definition ConditionTrue :: string where "ConditionTrue = ''True''"


record Container =
  c_Name :: string
  c_Image :: string
  c_RestartPolicy :: "string option"

record JobCondition =
  jc_Type :: string
  jc_Status :: string


fun hasJobCondition :: "JobCondition list \<Rightarrow> string \<Rightarrow> bool" where
  "hasJobCondition [] conditionType = False"
| "hasJobCondition (condition # rest) conditionType =
     (if jc_Type condition = conditionType then jc_Status condition = ConditionTrue
      else hasJobCondition rest conditionType)"




section \<open>FlowSchemas\<close>

definition FlowSchemaConditionDangling :: string where
  "FlowSchemaConditionDangling = ''Dangling''"

record FlowSchemaCondition =
  fsc_Type :: string
  fsc_Status :: string

record FlowSchema =
  fs_Name :: string
  fs_CreationTimestamp :: Time
  fs_MatchingPrecedence :: int32
  fs_PriorityLevelConfiguration :: string
  fs_DistinguisherMethod :: "string option"
  fs_Conditions :: "FlowSchemaCondition list"

record FlowSchemaList =
  fsl_Items :: "FlowSchema list"

text \<open>
  \<open>FlowSchemaSequence.Less\<close>, on a sequence and two indexes into it (the sequence holds
  pointers to the items; sorting permutes the pointers and leaves the items alone).
\<close>

definition Less :: "FlowSchema list \<Rightarrow> nat \<Rightarrow> nat \<Rightarrow> bool" where
  "Less s i j =
     (let ip = fs_MatchingPrecedence (s ! i); jp = fs_MatchingPrecedence (s ! j) in
      if ip \<noteq> jp then sint ip < sint jp
      else fs_Name (s ! i) < fs_Name (s ! j))"

fun danglingLoop :: "FlowSchemaCondition list \<Rightarrow> string \<Rightarrow> string" where
  "danglingLoop [] badPLRef = badPLRef"
| "danglingLoop (cond # rest) badPLRef =
     (if fsc_Type cond = FlowSchemaConditionDangling then fsc_Status cond
      else danglingLoop rest badPLRef)"

definition printFlowSchema :: "Env \<Rightarrow> FlowSchema \<Rightarrow> TableRow list \<times> error option" where
  "printFlowSchema env obj =
     (let name = fs_Name obj;
          plName = fs_PriorityLevelConfiguration obj;
          distinguisherMethod =
            (case fs_DistinguisherMethod obj of None \<Rightarrow> ''<none>'' | Some m \<Rightarrow> m);
          badPLRef = danglingLoop (fs_Conditions obj) ''?''
      in ([\<lparr>Cells = [S name, S plName, I (sint (fs_MatchingPrecedence obj)),
                       S distinguisherMethod,
                       S (translateTimestampSince env (fs_CreationTimestamp obj)),
                       S badPLRef],
             Conditions = []\<rparr>], None))"

text \<open>The rendering loop of \<open>printFlowSchemaList\<close> over the sorted sequence.\<close>

fun flowSchemaRowsLoop ::
  "Env \<Rightarrow> FlowSchema list \<Rightarrow> TableRow list \<Rightarrow> TableRow list \<times> error option" where
  "flowSchemaRowsLoop env [] rows = (rows, None)"
| "flowSchemaRowsLoop env (x # rest) rows =
     (case printFlowSchema env x of
        (r, Some err) \<Rightarrow> ([], Some err)
      | (r, None) \<Rightarrow> flowSchemaRowsLoop env rest (rows @ r))"

text \<open>
  \<open>printFlowSchemaList\<close>. \<open>sort.Sort\<close> belongs to Go's standard library: it is the
  parameter \<open>sort_Sort\<close>, which maps the sequence before the call to the sequence
  after it.
\<close>

definition printFlowSchemaList ::
  "(FlowSchema list \<Rightarrow> FlowSchema list) \<Rightarrow> Env \<Rightarrow> FlowSchemaList
     \<Rightarrow> TableRow list \<times> error option" where
  "printFlowSchemaList sort_Sort env list =
     (let fsSeq = fsl_Items list;
          fsSeq = sort_Sort fsSeq
      in flowSchemaRowsLoop env fsSeq [])"

text \<open>
  Insertion sort by \<open>Less\<close>, one implementation of the contract of \<open>sort.Sort\<close>.
\<close>

definition lessFS :: "FlowSchema \<Rightarrow> FlowSchema \<Rightarrow> bool" where
  "lessFS a b = Less [a, b] 0 1"

fun insertFS :: "FlowSchema \<Rightarrow> FlowSchema list \<Rightarrow> FlowSchema list" where
  "insertFS x [] = [x]"
| "insertFS x (y # ys) = (if lessFS y x then y # insertFS x ys else x # y # ys)"

fun insertionSortFS :: "FlowSchema list \<Rightarrow> FlowSchema list" where
  "insertionSortFS [] = []"
| "insertionSortFS (x # xs) = insertFS x (insertionSortFS xs)"

section \<open>Pods\<close>

text \<open>
  String constants of \<open>k8s.io/api/core/v1\<close>, with the values of that library; a pod
  phase, a condition type and a condition status are strings.
\<close>

definition PodSucceeded :: string where "PodSucceeded = ''Succeeded''"
definition PodFailed :: string where "PodFailed = ''Failed''"
definition PodScheduled :: string where "PodScheduled = ''PodScheduled''"
definition PodReady :: string where "PodReady = ''Ready''"
definition PodInitialized :: string where "PodInitialized = ''Initialized''"
definition PodReasonSchedulingGated :: string where "PodReasonSchedulingGated = ''SchedulingGated''"
definition ContainerRestartPolicyAlways :: string where "ContainerRestartPolicyAlways = ''Always''"
definition RowCompleted :: string where "RowCompleted = ''Completed''"

definition NodeUnreachablePodReason :: string where
  "NodeUnreachablePodReason = ''NodeLost''"

record ContainerStateWaiting =
  w_Reason :: string
  w_Message :: string

record ContainerStateRunning =
  r_StartedAt :: Time

record ContainerStateTerminated =
  t_ExitCode :: int32
  t_Signal :: int32
  t_Reason :: string
  t_FinishedAt :: Time

text \<open>The three pointers of a \<open>ContainerState\<close>; nothing in the type keeps two of them from being set.\<close>

record ContainerState =
  Waiting :: "ContainerStateWaiting option"
  Running :: "ContainerStateRunning option"
  Terminated :: "ContainerStateTerminated option"

record ContainerStatus =
  cs_Name :: string
  cs_State :: ContainerState
  cs_LastTerminationState :: ContainerState
  cs_Ready :: bool
  cs_RestartCount :: int32
  cs_Started :: "bool option"

record PodCondition =
  pc_Type :: string
  pc_Status :: string
  pc_Reason :: string

record PodSpec =
  spec_InitContainers :: "Container list"
  spec_Containers :: "Container list"
  spec_NodeName :: string
  spec_ReadinessGates :: "string list"

record PodStatus =
  status_Phase :: string
  status_Conditions :: "PodCondition list"
  status_Reason :: string
  status_NominatedNodeName :: string
  status_PodIPs :: "string list"
  status_InitContainerStatuses :: "ContainerStatus list"
  status_ContainerStatuses :: "ContainerStatus list"

record Pod =
  pod_Name :: string
  pod_DeletionTimestamp :: "Time option"
  pod_CreationTimestamp :: Time
  pod_Spec :: PodSpec
  pod_Status :: PodStatus

definition podSuccessConditions :: "TableRowCondition list" where
  "podSuccessConditions =
     [\<lparr>trc_Type = RowCompleted, trc_Status = ConditionTrue, trc_Reason = PodSucceeded,
       trc_Message = ''The pod has completed successfully.''\<rparr>]"

definition podFailedConditions :: "TableRowCondition list" where
  "podFailedConditions =
     [\<lparr>trc_Type = RowCompleted, trc_Status = ConditionTrue, trc_Reason = PodFailed,
       trc_Message = ''The pod failed.''\<rparr>]"

text \<open>The argument is a pointer: \<open>None\<close> is nil.\<close>

definition IsRestartableInitContainer :: "Container option \<Rightarrow> bool" where
  "IsRestartableInitContainer initContainer =
     (case initContainer of
        None \<Rightarrow> False
      | Some c \<Rightarrow>
          (case c_RestartPolicy c of
             None \<Rightarrow> False
           | Some p \<Rightarrow> p = ContainerRestartPolicyAlways))"

definition IsPodPhaseTerminal :: "string \<Rightarrow> bool" where
  "IsPodPhaseTerminal phase = (phase = PodFailed \<or> phase = PodSucceeded)"

fun hasPodReadyCondition :: "PodCondition list \<Rightarrow> bool" where
  "hasPodReadyCondition [] = False"
| "hasPodReadyCondition (condition # rest) =
     (if pc_Type condition = PodReady \<and> pc_Status condition = ConditionTrue then True
      else hasPodReadyCondition rest)"

fun isPodInitializedConditionTrueLoop :: "PodCondition list \<Rightarrow> bool" where
  "isPodInitializedConditionTrueLoop [] = False"
| "isPodInitializedConditionTrueLoop (condition # rest) =
     (if pc_Type condition \<noteq> PodInitialized then isPodInitializedConditionTrueLoop rest
      else pc_Status condition = ConditionTrue)"

definition isPodInitializedConditionTrue :: "PodStatus \<Rightarrow> bool" where
  "isPodInitializedConditionTrue status =
     isPodInitializedConditionTrueLoop (status_Conditions status)"

text \<open>
  The local variables of \<open>printPod\<close> that its loops update (\<open>totalContainers\<close> is
  threaded through its own loop below).
\<close>

record PodVars =
  restarts :: int
  restartableInitContainerRestarts :: int
  readyContainers :: int
  lastRestartDate :: Time
  lastRestartableInitContainerRestartDate :: Time
  reason :: string
  initializing :: bool
  hasRunning :: bool

text \<open>The loop over the conditions that sets the reason of a scheduling-gated pod.\<close>

fun schedulingGatedLoop :: "PodCondition list \<Rightarrow> string \<Rightarrow> string" where
  "schedulingGatedLoop [] r = r"
| "schedulingGatedLoop (condition # rest) r =
     schedulingGatedLoop rest
       (if pc_Type condition = PodScheduled \<and> pc_Reason condition = PodReasonSchedulingGated
        then PodReasonSchedulingGated else r)"

text \<open>
  The loop over \<open>pod.Spec.InitContainers\<close>: it fills the map from names to init
  containers (a later container of the same name replaces an earlier one) and counts the
  restartable ones into \<open>totalContainers\<close>.
\<close>

fun initContainersLoop ::
  "Container list \<Rightarrow> (string \<rightharpoonup> Container) \<times> int \<Rightarrow> (string \<rightharpoonup> Container) \<times> int" where
  "initContainersLoop [] s = s"
| "initContainersLoop (c # rest) (initContainers, totalContainers) =
     initContainersLoop rest
       (initContainers(c_Name c \<mapsto> c),
        if IsRestartableInitContainer (Some c) then totalContainers + 1 else totalContainers)"

text \<open>
  The loop over \<open>pod.Status.InitContainerStatuses\<close>: \<open>n\<close> is
  \<open>len(pod.Spec.InitContainers)\<close> and \<open>i\<close> the index. A \<open>continue\<close> is the
  recursive call; the \<open>break\<close> after the \<open>switch\<close> returns the variables.
\<close>

fun initContainerStatusesLoop ::
  "(string \<rightharpoonup> Container) \<Rightarrow> nat \<Rightarrow> nat \<Rightarrow> ContainerStatus list \<Rightarrow> PodVars \<Rightarrow> PodVars" where
  "initContainerStatusesLoop initContainers n i [] v = v"
| "initContainerStatusesLoop initContainers n i (container # rest) v =
     (let v = v\<lparr>restarts := restarts v + sint (cs_RestartCount container)\<rparr>;
          v = (case Terminated (cs_LastTerminationState container) of
                 None \<Rightarrow> v
               | Some lt \<Rightarrow>
                   if lastRestartDate v < t_FinishedAt lt
                   then v\<lparr>lastRestartDate := t_FinishedAt lt\<rparr> else v);
          v = (if IsRestartableInitContainer (initContainers (cs_Name container))
               then (let v = v\<lparr>restartableInitContainerRestarts :=
                                   restartableInitContainerRestarts v
                                     + sint (cs_RestartCount container)\<rparr>
                     in case Terminated (cs_LastTerminationState container) of
                          None \<Rightarrow> v
                        | Some lt \<Rightarrow>
                            if lastRestartableInitContainerRestartDate v < t_FinishedAt lt
                            then v\<lparr>lastRestartableInitContainerRestartDate := t_FinishedAt lt\<rparr>
                            else v)
               else v)
      in if (case Terminated (cs_State container) of
               None \<Rightarrow> False | Some t \<Rightarrow> t_ExitCode t = 0)
         then initContainerStatusesLoop initContainers n (Suc i) rest v
         else if IsRestartableInitContainer (initContainers (cs_Name container))
                 \<and> cs_Started container = Some True
         then initContainerStatusesLoop initContainers n (Suc i) rest
                (if cs_Ready container then v\<lparr>readyContainers := readyContainers v + 1\<rparr> else v)
         else (case Terminated (cs_State container) of
                 Some t \<Rightarrow>
                   v\<lparr>reason :=
                        (if length (t_Reason t) = 0
                         then (if t_Signal t \<noteq> 0
                               then ''Init:Signal:'' @ Itoa (sint (t_Signal t))
                               else ''Init:ExitCode:'' @ Itoa (sint (t_ExitCode t)))
                         else ''Init:'' @ t_Reason t),
                      initializing := True\<rparr>
               | None \<Rightarrow>
                   if (case Waiting (cs_State container) of
                         None \<Rightarrow> False
                       | Some w \<Rightarrow> length (w_Reason w) > 0 \<and> w_Reason w \<noteq> ''PodInitializing'')
                   then v\<lparr>reason := ''Init:'' @ w_Reason (the (Waiting (cs_State container))),
                          initializing := True\<rparr>
                   else v\<lparr>reason := ''Init:'' @ Itoa (int i) @ ''/'' @ Itoa (int n),
                          initializing := True\<rparr>))"

text \<open>
  The body of the loop over \<open>pod.Status.ContainerStatuses\<close>, and the loop, which runs
  from the last status to the first: it is called on the reversed slice.
\<close>

definition containerStatusStep :: "ContainerStatus \<Rightarrow> PodVars \<Rightarrow> PodVars" where
  "containerStatusStep container v =
     (let v = v\<lparr>restarts := restarts v + sint (cs_RestartCount container)\<rparr>;
          v = (case Terminated (cs_LastTerminationState container) of
                 None \<Rightarrow> v
               | Some lt \<Rightarrow>
                   if lastRestartDate v < t_FinishedAt lt
                   then v\<lparr>lastRestartDate := t_FinishedAt lt\<rparr> else v)
      in if (case Waiting (cs_State container) of None \<Rightarrow> False | Some w \<Rightarrow> w_Reason w \<noteq> [])
         then v\<lparr>reason := w_Reason (the (Waiting (cs_State container)))\<rparr>
         else if (case Terminated (cs_State container) of
                    None \<Rightarrow> False | Some t \<Rightarrow> t_Reason t \<noteq> [])
         then v\<lparr>reason := t_Reason (the (Terminated (cs_State container)))\<rparr>
         else if (case Terminated (cs_State container) of
                    None \<Rightarrow> False | Some t \<Rightarrow> t_Reason t = [])
         then (let t = the (Terminated (cs_State container)) in
               if t_Signal t \<noteq> 0
               then v\<lparr>reason := ''Signal:'' @ Itoa (sint (t_Signal t))\<rparr>
               else v\<lparr>reason := ''ExitCode:'' @ Itoa (sint (t_ExitCode t))\<rparr>)
         else if cs_Ready container \<and> Running (cs_State container) \<noteq> None
         then v\<lparr>hasRunning := True, readyContainers := readyContainers v + 1\<rparr>
         else v)"

fun containerStatusesLoop :: "ContainerStatus list \<Rightarrow> PodVars \<Rightarrow> PodVars" where
  "containerStatusesLoop [] v = v"
| "containerStatusesLoop (container # rest) v =
     containerStatusesLoop rest (containerStatusStep container v)"

text \<open>
  The loops over the readiness gates: for each gate, the first condition of its type
  counts when its status is true.
\<close>

fun gateConditionLoop :: "string \<Rightarrow> PodCondition list \<Rightarrow> int \<Rightarrow> int" where
  "gateConditionLoop conditionType [] trueConditions = trueConditions"
| "gateConditionLoop conditionType (condition # rest) trueConditions =
     (if pc_Type condition = conditionType
      then (if pc_Status condition = ConditionTrue then trueConditions + 1 else trueConditions)
      else gateConditionLoop conditionType rest trueConditions)"

fun readinessGatesLoop :: "string list \<Rightarrow> PodCondition list \<Rightarrow> int \<Rightarrow> int" where
  "readinessGatesLoop [] conditions trueConditions = trueConditions"
| "readinessGatesLoop (readinessGate # rest) conditions trueConditions =
     readinessGatesLoop rest conditions (gateConditionLoop readinessGate conditions trueConditions)"

text \<open>
  \<open>printPod\<close> up to the deletion-timestamp overrides: the variables after the
  initialisation loop, after the guarded scan of the main containers, and at the point
  where the cells are rendered.
\<close>

definition podVarsAfterInit :: "Pod \<Rightarrow> PodVars" where
  "podVarsAfterInit pod =
     (let podPhase = status_Phase (pod_Status pod);
          reason0 = podPhase;
          reason0 = (if status_Reason (pod_Status pod) \<noteq> []
                     then status_Reason (pod_Status pod) else reason0);
          reason0 = schedulingGatedLoop (status_Conditions (pod_Status pod)) reason0;
          initContainers =
            fst (initContainersLoop (spec_InitContainers (pod_Spec pod)) (Map.empty, 0))
      in initContainerStatusesLoop initContainers
           (length (spec_InitContainers (pod_Spec pod))) 0
           (status_InitContainerStatuses (pod_Status pod))
           \<lparr>restarts = 0, restartableInitContainerRestarts = 0, readyContainers = 0,
            lastRestartDate = 0, lastRestartableInitContainerRestartDate = 0,
            reason = reason0, initializing = False, hasRunning = False\<rparr>)"

definition podVarsAfterContainers :: "Pod \<Rightarrow> PodVars" where
  "podVarsAfterContainers pod =
     (let v = podVarsAfterInit pod in
      if \<not> initializing v \<or> isPodInitializedConditionTrue (pod_Status pod)
      then (let v = v\<lparr>restarts := restartableInitContainerRestarts v,
                        lastRestartDate := lastRestartableInitContainerRestartDate v,
                        hasRunning := False\<rparr>;
                v = containerStatusesLoop (rev (status_ContainerStatuses (pod_Status pod))) v
            in if reason v = ''Completed'' \<and> hasRunning v
               then (if hasPodReadyCondition (status_Conditions (pod_Status pod))
                     then v\<lparr>reason := ''Running''\<rparr>
                     else v\<lparr>reason := ''NotReady''\<rparr>)
               else v)
      else v)"

definition podVars :: "Pod \<Rightarrow> PodVars" where
  "podVars pod =
     (let v = podVarsAfterContainers pod in
      if \<not> IsZero (pod_DeletionTimestamp pod)
         \<and> status_Reason (pod_Status pod) = NodeUnreachablePodReason
      then v\<lparr>reason := ''Unknown''\<rparr>
      else if \<not> IsZero (pod_DeletionTimestamp pod)
              \<and> \<not> IsPodPhaseTerminal (status_Phase (pod_Status pod))
      then v\<lparr>reason := ''Terminating''\<rparr>
      else v)"

definition printPod :: "Env \<Rightarrow> Pod \<Rightarrow> TableRow list \<times> error option" where
  "printPod env pod =
     (let totalContainers =
            snd (initContainersLoop (spec_InitContainers (pod_Spec pod))
                   (Map.empty, int (length (spec_Containers (pod_Spec pod)))));
          rowConditions =
            (if status_Phase (pod_Status pod) = PodSucceeded then podSuccessConditions
             else if status_Phase (pod_Status pod) = PodFailed then podFailedConditions
             else []);
          v = podVars pod;
          restartsStr = Itoa (restarts v);
          restartsStr =
            (if restarts v \<noteq> 0 \<and> lastRestartDate v \<noteq> 0
             then Itoa (restarts v) @ '' ('' @ translateTimestampSince env (lastRestartDate v)
                    @ '' ago)''
             else restartsStr);
          cells = [S (pod_Name pod),
                   S (Itoa (readyContainers v) @ ''/'' @ Itoa totalContainers),
                   S (reason v), S restartsStr,
                   S (translateTimestampSince env (pod_CreationTimestamp pod))];
          nodeName = spec_NodeName (pod_Spec pod);
          nominatedNodeName = status_NominatedNodeName (pod_Status pod);
          podIP = (case status_PodIPs (pod_Status pod) of [] \<Rightarrow> [] | ip # ips \<Rightarrow> ip);
          podIP = (if podIP = [] then ''<none>'' else podIP);
          nodeName = (if nodeName = [] then ''<none>'' else nodeName);
          nominatedNodeName = (if nominatedNodeName = [] then ''<none>'' else nominatedNodeName);
          readinessGates =
            (if length (spec_ReadinessGates (pod_Spec pod)) > 0
             then Itoa (readinessGatesLoop (spec_ReadinessGates (pod_Spec pod))
                          (status_Conditions (pod_Status pod)) 0)
                    @ ''/'' @ Itoa (int (length (spec_ReadinessGates (pod_Spec pod))))
             else ''<none>'');
          cells = cells @ [S podIP, S nodeName, S nominatedNodeName, S readinessGates]
      in ([\<lparr>Cells = cells, Conditions = rowConditions\<rparr>], None))"

section \<open>Example inputs\<close>

definition exampleEnv :: Env where
  "exampleEnv = \<lparr>now = 1000, HumanDuration = (\<lambda>d. ''1s''), FormatLabelSelector = (\<lambda>s. ''<none>'')\<rparr>"

definition stateNone :: ContainerState where
  "stateNone = \<lparr>Waiting = None, Running = None, Terminated = None\<rparr>"

definition stateRunning :: ContainerState where
  "stateRunning = \<lparr>Waiting = None, Running = Some \<lparr>r_StartedAt = 100\<rparr>, Terminated = None\<rparr>"

definition stateWaiting :: "string \<Rightarrow> ContainerState" where
  "stateWaiting r = \<lparr>Waiting = Some \<lparr>w_Reason = r, w_Message = []\<rparr>, Running = None,
                     Terminated = None\<rparr>"

definition stateTerminated :: "int32 \<Rightarrow> string \<Rightarrow> Time \<Rightarrow> ContainerState" where
  "stateTerminated exitCode r finishedAt =
     \<lparr>Waiting = None, Running = None,
      Terminated = Some \<lparr>t_ExitCode = exitCode, t_Signal = 0, t_Reason = r,
                         t_FinishedAt = finishedAt\<rparr>\<rparr>"

definition examplePod ::
  "string \<Rightarrow> PodCondition list \<Rightarrow> Container list \<Rightarrow> ContainerStatus list
     \<Rightarrow> ContainerStatus list \<Rightarrow> Pod" where
  "examplePod phase conditions initContainers initStatuses statuses =
     \<lparr>pod_Name = ''p'', pod_DeletionTimestamp = None, pod_CreationTimestamp = 0,
      pod_Spec = \<lparr>spec_InitContainers = initContainers,
                  spec_Containers = [\<lparr>c_Name = ''main'', c_Image = ''img'', c_RestartPolicy = None\<rparr>],
                  spec_NodeName = [], spec_ReadinessGates = []\<rparr>,
      pod_Status = \<lparr>status_Phase = phase, status_Conditions = conditions, status_Reason = [],
                    status_NominatedNodeName = [], status_PodIPs = [],
                    status_InitContainerStatuses = initStatuses,
                    status_ContainerStatuses = statuses\<rparr>\<rparr>"

text \<open>Phase Succeeded, Ready false, the only container ready and running.\<close>

definition succeededRunningPod :: Pod where
  "succeededRunningPod =
     examplePod ''Succeeded'' [\<lparr>pc_Type = ''Ready'', pc_Status = ''False'', pc_Reason = []\<rparr>] [] []
       [\<lparr>cs_Name = ''main'', cs_State = stateRunning, cs_LastTerminationState = stateNone,
         cs_Ready = True, cs_RestartCount = 0, cs_Started = Some True\<rparr>]"

text \<open>Phase Succeeded, Ready false, one container completed and a second one ready and running.\<close>

definition completedSidecarPod :: Pod where
  "completedSidecarPod =
     examplePod ''Succeeded'' [\<lparr>pc_Type = ''Ready'', pc_Status = ''False'', pc_Reason = []\<rparr>] [] []
       [\<lparr>cs_Name = ''main'', cs_State = stateTerminated 0 ''Completed'' 500,
         cs_LastTerminationState = stateNone,
         cs_Ready = False, cs_RestartCount = 0, cs_Started = Some False\<rparr>,
        \<lparr>cs_Name = ''sidecar'', cs_State = stateRunning, cs_LastTerminationState = stateNone,
         cs_Ready = True, cs_RestartCount = 0, cs_Started = Some True\<rparr>]"

text \<open>
  The sole init container terminated with exit code 2, signal 0 and no reason; the main
  container is waiting in a crash loop. In the first pod the Initialized condition is
  true, in the second it is false.
\<close>

definition initFailedStatus :: ContainerStatus where
  "initFailedStatus =
     \<lparr>cs_Name = ''init'', cs_State = stateTerminated 2 [] 500,
      cs_LastTerminationState = stateNone,
      cs_Ready = False, cs_RestartCount = 0, cs_Started = Some False\<rparr>"

definition crashLoopStatus :: ContainerStatus where
  "crashLoopStatus =
     \<lparr>cs_Name = ''main'', cs_State = stateWaiting ''CrashLoopBackOff'',
      cs_LastTerminationState = stateNone,
      cs_Ready = False, cs_RestartCount = 0, cs_Started = Some False\<rparr>"

definition initFailedInitializedPod :: Pod where
  "initFailedInitializedPod =
     examplePod ''Pending'' [\<lparr>pc_Type = ''Initialized'', pc_Status = ''True'', pc_Reason = []\<rparr>]
       [\<lparr>c_Name = ''init'', c_Image = ''img'', c_RestartPolicy = None\<rparr>]
       [initFailedStatus] [crashLoopStatus]"

definition initFailedPod :: Pod where
  "initFailedPod =
     examplePod ''Pending'' [\<lparr>pc_Type = ''Initialized'', pc_Status = ''False'', pc_Reason = []\<rparr>]
       [\<lparr>c_Name = ''init'', c_Image = ''img'', c_RestartPolicy = None\<rparr>]
       [initFailedStatus] [crashLoopStatus]"

text \<open>
  A running container with a recorded last termination: in the first pod its restart
  count is 0, in the second it is 3.
\<close>

definition terminatedOnceStatus :: "int32 \<Rightarrow> ContainerStatus" where
  "terminatedOnceStatus n =
     \<lparr>cs_Name = ''main'', cs_State = stateRunning,
      cs_LastTerminationState = stateTerminated 1 ''Error'' 500,
      cs_Ready = True, cs_RestartCount = n, cs_Started = Some True\<rparr>"

definition neverRestartedPod :: Pod where
  "neverRestartedPod = examplePod ''Running'' [] [] [] [terminatedOnceStatus 0]"

definition restartedPod :: Pod where
  "restartedPod = examplePod ''Running'' [] [] [] [terminatedOnceStatus 3]"

section \<open>Properties\<close>

lemma Itoa_digits:
  "Itoa 0 = ''0''" "Itoa 1 = ''1''" "Itoa 2 = ''2''" "Itoa 3 = ''3''"
  by code_simp+

lemma csrConditionsLoop_flags:
  "csrConditionsLoop cs (a, d, f) =
     (a \<or> CertificateApproved \<in> csrc_Type ` set cs,
      d \<or> CertificateDenied \<in> csrc_Type ` set cs,
      f \<or> CertificateFailed \<in> csrc_Type ` set cs)"
  by (induction cs arbitrary: a d f)
     (auto simp: CertificateApproved_def CertificateDenied_def CertificateFailed_def)

text \<open>
  C6. The status of a CertificateSigningRequest starts with \<open>Denied\<close> if a condition of
  type Denied is present, else \<open>Approved\<close> if one of type Approved is present, else
  \<open>Pending\<close>; \<open>,Failed\<close> follows exactly when a condition of type Failed is present,
  and \<open>,Issued\<close> exactly when the certificate is not empty.
\<close>

theorem extractCSRStatus_shape:
  "extractCSRStatus csr =
     (if CertificateDenied \<in> csrc_Type ` set (csr_Conditions csr) then ''Denied''
      else if CertificateApproved \<in> csrc_Type ` set (csr_Conditions csr) then ''Approved''
      else ''Pending'')
     @ (if CertificateFailed \<in> csrc_Type ` set (csr_Conditions csr) then '',Failed'' else '''')
     @ (if csr_Certificate csr \<noteq> [] then '',Issued'' else '''')"
  by (simp add: extractCSRStatus_def csrConditionsLoop_flags)

text \<open>
  C10. The status of a CertificateSigningRequest depends on the types of its conditions
  only: overwriting the \<open>Status\<close> field of every condition, in any way, leaves the
  derived status unchanged; a single Denied condition yields \<open>Denied\<close> whatever its
  \<open>Status\<close> field holds (\<open>False\<close> and \<open>Unknown\<close> included).
\<close>

theorem extractCSRStatus_ignores_condition_status:
  "extractCSRStatus (csr\<lparr>csr_Conditions := map (\<lambda>c. c\<lparr>csrc_Status := st c\<rparr>) (csr_Conditions csr)\<rparr>)
     = extractCSRStatus csr
   \<and> extractCSRStatus \<lparr>csr_Name = n,
         csr_Conditions = [\<lparr>csrc_Type = CertificateDenied, csrc_Status = s,
                            csrc_Reason = r, csrc_Message = m\<rparr>],
         csr_Certificate = []\<rparr> = ''Denied''"
proof -
  have "csrc_Type ` set (map (\<lambda>c. c\<lparr>csrc_Status := st c\<rparr>) (csr_Conditions csr))
          = csrc_Type ` set (csr_Conditions csr)"
    by (simp add: image_image)
  then show ?thesis
    by (simp add: extractCSRStatus_def csrConditionsLoop_flags
          CertificateDenied_def CertificateFailed_def)
qed

subsection \<open>Truncated lists\<close>

lemma addressesLoop_inv:
  "addressesLoop (int k) as (take k pre, k < length pre, int (length pre)) =
     (take k (pre @ as), k < length (pre @ as), int (length (pre @ as)))"
proof (induction as arbitrary: pre)
  case Nil
  then show ?case by simp
next
  case (Cons a as)
  have step:
    "(if int (length (take k pre)) < int k
      then (take k pre @ [a], k < length pre, int (length pre) + 1)
      else if int (length (take k pre)) = int k
      then (take k pre, True, int (length pre) + 1)
      else (take k pre, k < length pre, int (length pre) + 1))
     = (take k (pre @ [a]), k < length (pre @ [a]), int (length (pre @ [a])))"
    by (auto simp: min_def)
  show ?case
    using Cons.IH [of "pre @ [a]"] by (simp only: addressesLoop.simps step) simp
qed

lemma endpointsLoop_inv:
  "endpointsLoop (int k) es (take k pre, k < length pre, int (length pre)) =
     (take k (pre @ concat (map Addresses es)),
      k < length (pre @ concat (map Addresses es)),
      int (length (pre @ concat (map Addresses es))))"
proof (induction es arbitrary: pre)
  case Nil
  then show ?case by simp
next
  case (Cons e es)
  show ?case
    using Cons.IH [of "pre @ Addresses e"] by (simp add: addressesLoop_inv)
qed

lemma formatDiscoveryEndpoints_eq:
  "formatDiscoveryEndpoints endpoints =
     (let addrs = concat (map Addresses endpoints) in
      if 3 < length addrs
      then Join (take 3 addrs) '','' @ '' + '' @ Itoa (int (length addrs) - 3) @ '' more...''
      else if Join addrs '','' = [] then ''<unset>''
      else Join addrs '','')"
  using endpointsLoop_inv [of 3 endpoints "[]"]
  by (simp add: formatDiscoveryEndpoints_def listWithMoreString_def Let_def)

text \<open>
  C8. \<open>formatDiscoveryEndpoints\<close> keeps the first 3 addresses of the endpoints, in
  their order, joined by commas; when there are more than 3 it appends
  \<open>" + <n> more..."\<close> with \<open>n\<close> the number of addresses beyond the first 3; when
  the joined string is empty it renders \<open><unset>\<close>. Five addresses
  \<open>a, b, c, d, e\<close> render as \<open>a,b,c + 2 more...\<close>.
\<close>

theorem formatDiscoveryEndpoints_truncates:
  "formatDiscoveryEndpoints endpoints =
     (let addrs = concat (map Addresses endpoints) in
      if 3 < length addrs
      then Join (take 3 addrs) '','' @ '' + '' @ Itoa (int (length addrs) - 3) @ '' more...''
      else if Join addrs '','' = [] then ''<unset>''
      else Join addrs '','')
   \<and> formatDiscoveryEndpoints [\<lparr>Addresses = [a, b, c, d, e]\<rparr>] =
       a @ '','' @ b @ '','' @ c @ '' + 2 more...''"
  by (simp add: formatDiscoveryEndpoints_eq Itoa_digits)

subsection \<open>The registry and the generator\<close>

text \<open>
  C3. Registering a print handler that is not a function of one parameter returning
  \<open>([]TableRow, error)\<close> fails inside \<open>TableHandler\<close> with one of the three
  invalid-print-handler errors, and the handler map is left as it was.
\<close>

theorem TableHandler_rejects_invalid_signature:
  assumes "\<not> (\<exists>t f. pf = Func [t] [TableRowSlice, ErrorInterface] f)"
  shows "\<exists>err. TableHandler h cols pf = (Some err, h)
           \<and> err \<in> {NotAFunction, WrongArity} \<union> range WrongSignature"
proof (cases pf)
  case NonFunc
  then show ?thesis
    by (simp add: TableHandler_def ValidateRowPrintHandlerFunc_def)
next
  case (Func ps rs f)
  show ?thesis
  proof (cases "length ps \<noteq> 1 \<or> length rs \<noteq> 2")
    case True
    then show ?thesis
      using Func by (auto simp add: TableHandler_def ValidateRowPrintHandlerFunc_def)
  next
    case False
    then obtain t r1 r2 where ps: "ps = [t]" and rs: "rs = [r1, r2]"
      by (auto simp: length_Suc_conv numeral_2_eq_2)
    with assms Func have "r1 \<noteq> TableRowSlice \<or> r2 \<noteq> ErrorInterface"
      by auto
    then show ?thesis
      using Func ps rs by (auto simp add: TableHandler_def ValidateRowPrintHandlerFunc_def)
  qed
qed

text \<open>A function of three parameters is refused with the arity error.\<close>

theorem TableHandler_rejects_invalid_signature_witness:
  "\<not> (\<exists>t f. Func [Named ''a'', Named ''b'', Named ''c''] [TableRowSlice, ErrorInterface]
                 (\<lambda>x::unit. ([], None)) = Func [t] [TableRowSlice, ErrorInterface] f)
   \<and> TableHandler Map.empty []
       (Func [Named ''a'', Named ''b'', Named ''c''] [TableRowSlice, ErrorInterface]
          (\<lambda>x::unit. ([], None))) = (Some WrongArity, Map.empty)"
proof -
  let ?pf = "Func [Named ''a'', Named ''b'', Named ''c''] [TableRowSlice, ErrorInterface]
               (\<lambda>x::unit. ([], None))"
  have bad: "\<not> (\<exists>t f. ?pf = Func [t] [TableRowSlice, ErrorInterface] f)"
    by simp
  from TableHandler_rejects_invalid_signature [OF bad, of Map.empty "[]"]
  obtain err where "TableHandler Map.empty [] ?pf = (Some err, Map.empty)"
    by blast
  moreover have "fst (TableHandler Map.empty [] ?pf) = Some WrongArity"
    by (simp add: TableHandler_def ValidateRowPrintHandlerFunc_def)
  ultimately show ?thesis
    using bad by simp
qed

text \<open>Every handler of a generator built by \<open>TableHandler\<close> has a validated print function.\<close>

lemma TableHandler_keeps_valid:
  assumes "\<forall>t e. h t = Some e \<longrightarrow> ValidateRowPrintHandlerFunc (printFunc e) = None"
    and "snd (TableHandler h cols pf) t = Some e"
  shows "ValidateRowPrintHandlerFunc (printFunc e) = None"
  using assms
  by (auto simp: TableHandler_def Let_def split: option.splits if_splits)

lemma columnsLoop_filter:
  "columnsLoop cs acc = acc @ filter (\<lambda>c. col_Priority c = 0) cs"
  by (induction cs arbitrary: acc) auto

text \<open>
  C7. For an object whose type has a registered handler, \<open>GenerateTable\<close> returns a
  table exactly when the print function returns its rows without an error, and the
  columns of that table are the handler's column definitions of priority 0, in their
  order; no column of another priority is emitted. Otherwise it returns the error of the
  print function.
\<close>

theorem GenerateTable_columns:
  assumes "h (TypeOf obj) = Some handler"
  shows "case GenerateTable h obj of
           Inr table \<Rightarrow>
             ColumnDefinitions table =
               filter (\<lambda>c. col_Priority c = 0) (columnDefinitions handler)
             \<and> (\<exists>rows. Call (printFunc handler) (Value obj) = Inr (rows, None)
                        \<and> Rows table = rows)
         | Inl err \<Rightarrow>
             Call (printFunc handler) (Value obj) = Inl err
             \<or> (\<exists>rows. Call (printFunc handler) (Value obj) = Inr (rows, Some err))"
  using assms
  by (auto simp: GenerateTable_def Let_def columnsLoop_filter
           split: sum.splits option.splits Meta.splits prod.splits)

text \<open>A handler with a wide column between two default ones: the wide column is dropped.\<close>

theorem GenerateTable_columns_witness:
  "GenerateTable
     [Named ''PodList'' \<mapsto>
        \<lparr>columnDefinitions =
           [\<lparr>col_Name = ''Name'', col_Type = ''string'', col_Format = ''name'',
             col_Description = [], col_Priority = 0\<rparr>,
            \<lparr>col_Name = ''IP'', col_Type = ''string'', col_Format = [],
             col_Description = [], col_Priority = 1\<rparr>,
            \<lparr>col_Name = ''Age'', col_Type = ''string'', col_Format = [],
             col_Description = [], col_Priority = 0\<rparr>],
          printFunc = Func [Named ''PodList''] [TableRowSlice, ErrorInterface]
                        (\<lambda>x::unit. ([], None))\<rparr>]
     \<lparr>TypeOf = Named ''PodList'', Accessor = ListMeta ''7'' [] None, Value = ()\<rparr>
   = Inr \<lparr>ResourceVersion = ''7'', Continue = [], RemainingItemCount = None,
          ColumnDefinitions =
            [\<lparr>col_Name = ''Name'', col_Type = ''string'', col_Format = ''name'',
              col_Description = [], col_Priority = 0\<rparr>,
             \<lparr>col_Name = ''Age'', col_Type = ''string'', col_Format = [],
              col_Description = [], col_Priority = 0\<rparr>],
          Rows = []\<rparr>"
proof -
  let ?entry = "\<lparr>columnDefinitions =
           [\<lparr>col_Name = ''Name'', col_Type = ''string'', col_Format = ''name'',
             col_Description = [], col_Priority = 0\<rparr>,
            \<lparr>col_Name = ''IP'', col_Type = ''string'', col_Format = [],
             col_Description = [], col_Priority = 1\<rparr>,
            \<lparr>col_Name = ''Age'', col_Type = ''string'', col_Format = [],
             col_Description = [], col_Priority = 0\<rparr>],
          printFunc = Func [Named ''PodList''] [TableRowSlice, ErrorInterface]
                        (\<lambda>x::unit. ([], None))\<rparr>"
  let ?h = "[Named ''PodList'' \<mapsto> ?entry]"
  let ?obj = "\<lparr>TypeOf = Named ''PodList'', Accessor = ListMeta ''7'' [] None, Value = ()\<rparr>"
  have reg: "?h (TypeOf ?obj) = Some ?entry"
    by simp
  have ret: "\<exists>t. GenerateTable ?h ?obj = Inr t \<and> ResourceVersion t = ''7'' \<and> Continue t = []
                \<and> RemainingItemCount t = None"
    by (simp add: GenerateTable_def Call_def ValidateRowPrintHandlerFunc_def)
  then obtain t where t: "GenerateTable ?h ?obj = Inr t" "ResourceVersion t = ''7''"
    "Continue t = []" "RemainingItemCount t = None"
    by blast
  from GenerateTable_columns [of ?h ?obj ?entry] reg t
  have "ColumnDefinitions t = [\<lparr>col_Name = ''Name'', col_Type = ''string'', col_Format = ''name'',
              col_Description = [], col_Priority = 0\<rparr>,
             \<lparr>col_Name = ''Age'', col_Type = ''string'', col_Format = [],
              col_Description = [], col_Priority = 0\<rparr>] \<and> Rows t = []"
    by (simp add: Call_def ValidateRowPrintHandlerFunc_def)
  then show ?thesis
    using t by (cases t) simp
qed

subsection \<open>Jobs\<close>

lemma hasJobCondition_find:
  "hasJobCondition cs t =
     (case find (\<lambda>c. jc_Type c = t) cs of
        None \<Rightarrow> False
      | Some c \<Rightarrow> jc_Status c = ConditionTrue)"
  by (induction cs) auto




subsection \<open>FlowSchemas\<close>

lemma flowSchemaRowsLoop_concat:
  "flowSchemaRowsLoop env xs rows =
     (rows @ concat (map (fst \<circ> printFlowSchema env) xs), None)"
  by (induction xs arbitrary: rows) (auto simp: printFlowSchema_def)

lemma Less_nth:
  "Less s j i \<longleftrightarrow>
     (if fs_MatchingPrecedence (s ! j) \<noteq> fs_MatchingPrecedence (s ! i)
      then sint (fs_MatchingPrecedence (s ! j)) < sint (fs_MatchingPrecedence (s ! i))
      else fs_Name (s ! j) < fs_Name (s ! i))"
  by (simp add: Less_def Let_def)

lemma not_Less_ordered:
  assumes "\<not> Less s j i"
  shows "sint (fs_MatchingPrecedence (s ! i)) < sint (fs_MatchingPrecedence (s ! j))
         \<or> (fs_MatchingPrecedence (s ! i) = fs_MatchingPrecedence (s ! j)
            \<and> fs_Name (s ! i) \<le> fs_Name (s ! j))"
proof (cases "fs_MatchingPrecedence (s ! j) = fs_MatchingPrecedence (s ! i)")
  case True
  then show ?thesis
    using assms by (simp add: Less_nth not_less)
next
  case False
  then have "sint (fs_MatchingPrecedence (s ! j)) \<noteq> sint (fs_MatchingPrecedence (s ! i))"
    using word_eq_iff_signed [where ?'a = int] by blast
  then show ?thesis
    using assms False by (simp add: Less_nth)
qed

lemma printFlowSchema_cells:
  "map (\<lambda>r. (Cells r ! 2, Cells r ! 0)) (concat (map (fst \<circ> printFlowSchema env) ys))
     = map (\<lambda>f. (I (sint (fs_MatchingPrecedence f)), S (fs_Name f))) ys"
  by (induction ys) (auto simp: printFlowSchema_def)

lemma two_perm:
  assumes "mset ys = mset [x, y]"
  shows "ys = [x, y] \<or> ys = [y, x]"
proof -
  have "length ys = 2"
    using assms by (metis length_Cons list.size(3) mset_eq_length numeral_2_eq_2)
  then obtain a b where ys: "ys = [a, b]"
    by (auto simp: length_Suc_conv numeral_2_eq_2)
  with assms have "{#a, b#} = {#x, y#}"
    by simp
  then show ?thesis
    using ys by (auto simp: add_eq_conv_ex)
qed

text \<open>
  C9. Whatever implementation of \<open>sort.Sort\<close> is used, provided it returns a
  permutation of the sequence in which no later element is \<open>Less\<close> than an earlier one:
  \<open>printFlowSchemaList\<close> renders the items of the sorted sequence, one row each in that
  order, and the sequence is in ascending order of matching precedence, with equal
  precedences in ascending order of name. The sort comes first: the rows are those of
  the sorted sequence. Of two schemas, the one with the smaller precedence renders first,
  whatever the names.
\<close>

theorem printFlowSchemaList_sorted:
  assumes contract:
    "\<forall>xs. mset (sort_Sort xs) = mset xs
        \<and> (\<forall>i j. i < j \<and> j < length (sort_Sort xs) \<longrightarrow> \<not> Less (sort_Sort xs) j i)"
  shows "(\<exists>ys. mset ys = mset (fsl_Items list)
     \<and> sorted_wrt (\<lambda>a b. sint (fs_MatchingPrecedence a) < sint (fs_MatchingPrecedence b)
                     \<or> (fs_MatchingPrecedence a = fs_MatchingPrecedence b
                         \<and> fs_Name a \<le> fs_Name b)) ys
     \<and> printFlowSchemaList sort_Sort env list
         = (concat (map (fst \<circ> printFlowSchema env) ys), None)
     \<and> map (\<lambda>r. (Cells r ! 2, Cells r ! 0)) (fst (printFlowSchemaList sort_Sort env list))
         = map (\<lambda>f. (I (sint (fs_MatchingPrecedence f)), S (fs_Name f))) ys)
   \<and> (sint (fs_MatchingPrecedence y) < sint (fs_MatchingPrecedence x) \<longrightarrow>
         printFlowSchemaList sort_Sort env \<lparr>fsl_Items = [x, y]\<rparr>
           = (fst (printFlowSchema env y) @ fst (printFlowSchema env x), None))"
proof (intro conjI impI)
  let ?ys = "sort_Sort (fsl_Items list)"
  have m: "mset ?ys = mset (fsl_Items list)"
    using contract by blast
  have "\<forall>i j. i < j \<longrightarrow> j < length ?ys \<longrightarrow> \<not> Less ?ys j i"
    using contract by blast
  then have s: "sorted_wrt (\<lambda>a b. sint (fs_MatchingPrecedence a) < sint (fs_MatchingPrecedence b)
                     \<or> (fs_MatchingPrecedence a = fs_MatchingPrecedence b
                         \<and> fs_Name a \<le> fs_Name b)) ?ys"
    unfolding sorted_wrt_iff_nth_less using not_Less_ordered by blast
  have p: "printFlowSchemaList sort_Sort env list
             = (concat (map (fst \<circ> printFlowSchema env) ?ys), None)"
    by (simp add: printFlowSchemaList_def flowSchemaRowsLoop_concat)
  show "\<exists>ys. mset ys = mset (fsl_Items list)
     \<and> sorted_wrt (\<lambda>a b. sint (fs_MatchingPrecedence a) < sint (fs_MatchingPrecedence b)
                     \<or> (fs_MatchingPrecedence a = fs_MatchingPrecedence b
                         \<and> fs_Name a \<le> fs_Name b)) ys
     \<and> printFlowSchemaList sort_Sort env list
         = (concat (map (fst \<circ> printFlowSchema env) ys), None)
     \<and> map (\<lambda>r. (Cells r ! 2, Cells r ! 0)) (fst (printFlowSchemaList sort_Sort env list))
         = map (\<lambda>f. (I (sint (fs_MatchingPrecedence f)), S (fs_Name f))) ys"
    using m s p printFlowSchema_cells [of env ?ys] by (intro exI [of _ ?ys]) simp
next
  assume lt: "sint (fs_MatchingPrecedence y) < sint (fs_MatchingPrecedence x)"
  let ?ys = "sort_Sort [x, y]"
  have "mset ?ys = mset [x, y]"
    using contract by blast
  then have cases: "?ys = [x, y] \<or> ?ys = [y, x]"
    by (rule two_perm)
  have "length ?ys = 2"
    using cases by auto
  then have nl: "\<not> Less ?ys 1 0"
    using contract by simp
  have "?ys \<noteq> [x, y]"
  proof
    assume e: "?ys = [x, y]"
    have "Less [x, y] 1 0"
      using lt by (auto simp: Less_nth)
    then show False
      using nl e by simp
  qed
  then have "?ys = [y, x]"
    using cases by blast
  then show "printFlowSchemaList sort_Sort env \<lparr>fsl_Items = [x, y]\<rparr>
               = (fst (printFlowSchema env y) @ fst (printFlowSchema env x), None)"
    by (simp add: printFlowSchemaList_def flowSchemaRowsLoop_concat)
qed

text \<open>Insertion sort by \<open>Less\<close> meets the contract asked of \<open>sort.Sort\<close>.\<close>

lemma lessFS_iff:
  "lessFS a b \<longleftrightarrow>
     sint (fs_MatchingPrecedence a) < sint (fs_MatchingPrecedence b)
     \<or> (sint (fs_MatchingPrecedence a) = sint (fs_MatchingPrecedence b) \<and> fs_Name a < fs_Name b)"
  using word_eq_iff_signed [where ?'a = int, of "fs_MatchingPrecedence a" "fs_MatchingPrecedence b"]
  by (auto simp: lessFS_def Less_nth)

lemma Less_lessFS: "Less s j i = lessFS (s ! j) (s ! i)"
  by (simp add: lessFS_def Less_nth)

lemma set_insertFS: "set (insertFS x ys) = insert x (set ys)"
  by (induction ys) auto

lemma mset_insertFS: "mset (insertFS x ys) = add_mset x (mset ys)"
  by (induction ys) auto

lemma mset_insertionSortFS: "mset (insertionSortFS xs) = mset xs"
  by (induction xs) (auto simp: mset_insertFS)

lemma sorted_insertFS:
  "sorted_wrt (\<lambda>a b. \<not> lessFS b a) ys \<Longrightarrow> sorted_wrt (\<lambda>a b. \<not> lessFS b a) (insertFS x ys)"
proof (induction ys)
  case Nil
  then show ?case by simp
next
  case (Cons y ys)
  show ?case
  proof (cases "lessFS y x")
    case True
    then have "\<not> lessFS x y" by (auto simp: lessFS_iff)
    then show ?thesis using Cons True by (auto simp: set_insertFS)
  next
    case False
    have "\<not> lessFS z x" if "z \<in> set ys" for z
    proof -
      have "\<not> lessFS z y" using Cons.prems that by auto
      then show ?thesis using False by (auto simp: lessFS_iff)
    qed
    then show ?thesis using Cons False by auto
  qed
qed

lemma sorted_insertionSortFS: "sorted_wrt (\<lambda>a b. \<not> lessFS b a) (insertionSortFS xs)"
  by (induction xs) (auto simp: sorted_insertFS)

lemma insertionSortFS_contract:
  "\<forall>xs. mset (insertionSortFS xs) = mset xs
     \<and> (\<forall>i j. i < j \<and> j < length (insertionSortFS xs) \<longrightarrow> \<not> Less (insertionSortFS xs) j i)"
  using sorted_insertionSortFS
  by (auto simp: mset_insertionSortFS Less_lessFS sorted_wrt_iff_nth_less)


text \<open>Precedences 100 and 50 with names \<open>b\<close> and \<open>a\<close>: the schema of precedence 50 comes first.\<close>

theorem printFlowSchemaList_sorted_witness:
  "map (\<lambda>r. Cells r ! 0)
     (fst (printFlowSchemaList insertionSortFS
        \<lparr>now = 0, HumanDuration = (\<lambda>d. []), FormatLabelSelector = (\<lambda>s. [])\<rparr>
        \<lparr>fsl_Items =
           [\<lparr>fs_Name = ''b'', fs_CreationTimestamp = 0, fs_MatchingPrecedence = 100,
             fs_PriorityLevelConfiguration = ''pl'', fs_DistinguisherMethod = None,
             fs_Conditions = []\<rparr>,
            \<lparr>fs_Name = ''a'', fs_CreationTimestamp = 0, fs_MatchingPrecedence = 50,
             fs_PriorityLevelConfiguration = ''pl'', fs_DistinguisherMethod = None,
             fs_Conditions = []\<rparr>]\<rparr>))
   = [S ''a'', S ''b'']"
proof -
  let ?x = "\<lparr>fs_Name = ''b'', fs_CreationTimestamp = 0, fs_MatchingPrecedence = 100,
             fs_PriorityLevelConfiguration = ''pl'', fs_DistinguisherMethod = None,
             fs_Conditions = []\<rparr>"
  let ?y = "\<lparr>fs_Name = ''a'', fs_CreationTimestamp = 0, fs_MatchingPrecedence = 50,
             fs_PriorityLevelConfiguration = ''pl'', fs_DistinguisherMethod = None,
             fs_Conditions = []\<rparr>"
  have lt: "sint (fs_MatchingPrecedence ?y) < sint (fs_MatchingPrecedence ?x)"
    by simp
  from printFlowSchemaList_sorted [OF insertionSortFS_contract, of _ _ ?y ?x] lt
  show ?thesis
    by (simp add: printFlowSchema_def)
qed


subsection \<open>Pods\<close>

lemma containerStatusesLoop_append:
  "containerStatusesLoop (xs @ ys) v = containerStatusesLoop ys (containerStatusesLoop xs v)"
  by (induction xs arbitrary: v) auto

lemma step_silent_reason:
  assumes "\<forall>w. Waiting (cs_State x) = Some w \<longrightarrow> w_Reason w = []"
    and "Terminated (cs_State x) = None"
  shows "reason (containerStatusStep x v) = reason v"
  using assms by (auto simp: containerStatusStep_def Let_def split: option.splits)

lemma loop_silent_reason:
  assumes "\<forall>x \<in> set xs. (\<forall>w. Waiting (cs_State x) = Some w \<longrightarrow> w_Reason w = [])
              \<and> Terminated (cs_State x) = None"
  shows "reason (containerStatusesLoop xs v) = reason v"
  using assms by (induction xs arbitrary: v) (simp_all add: step_silent_reason)

lemma step_hasRunning_mono:
  "hasRunning v \<Longrightarrow> hasRunning (containerStatusStep x v)"
  by (auto simp: containerStatusStep_def Let_def split: option.splits)

lemma loop_hasRunning_mono:
  "hasRunning v \<Longrightarrow> hasRunning (containerStatusesLoop xs v)"
  by (induction xs arbitrary: v) (simp_all add: step_hasRunning_mono)

lemma step_running:
  assumes "\<forall>w. Waiting (cs_State x) = Some w \<longrightarrow> w_Reason w = []"
    and "Terminated (cs_State x) = None"
    and "cs_Ready x" and "Running (cs_State x) \<noteq> None"
  shows "hasRunning (containerStatusStep x v)"
  using assms by (auto simp: containerStatusStep_def Let_def split: option.splits)

lemma loop_running:
  assumes "x \<in> set xs"
    and "\<forall>w. Waiting (cs_State x) = Some w \<longrightarrow> w_Reason w = []"
    and "Terminated (cs_State x) = None"
    and "cs_Ready x" and "Running (cs_State x) \<noteq> None"
  shows "hasRunning (containerStatusesLoop xs v)"
  using assms
proof (induction xs arbitrary: v)
  case Nil
  then show ?case by simp
next
  case (Cons y ys)
  show ?case
  proof (cases "x = y")
    case True
    then have "hasRunning (containerStatusStep y v)"
      using Cons.prems by (simp add: step_running)
    then show ?thesis by (simp add: loop_hasRunning_mono)
  next
    case False
    then show ?thesis using Cons by simp
  qed
qed

lemma step_completed:
  assumes "\<forall>w. Waiting (cs_State c) = Some w \<longrightarrow> w_Reason w = []"
    and "Terminated (cs_State c) = Some t" and "t_Reason t = ''Completed''"
  shows "reason (containerStatusStep c v) = ''Completed''"
  using assms by (auto simp: containerStatusStep_def Let_def split: option.splits)

text \<open>
  C1 (amended). For a Pod with phase Succeeded whose main containers are scanned
  (initialisation is not blocking, or the Initialized condition is true) and which is
  not being deleted with status reason \<open>NodeLost\<close>: when the first container status,
  in declaration order, that is waiting with a reason or terminated is one terminated
  with reason \<open>Completed\<close>, and some container status is ready and Running (neither
  waiting with a reason nor terminated), and the Pod has no Ready condition of status
  True, the reason reported by \<open>printPod\<close> is \<open>NotReady\<close>.
\<close>

theorem printPod_completed_running_not_ready:
  assumes phase: "status_Phase (pod_Status pod) = PodSucceeded"
    and gate: "\<not> initializing (podVarsAfterInit pod) \<or> isPodInitializedConditionTrue (pod_Status pod)"
    and statuses: "status_ContainerStatuses (pod_Status pod) = pre @ c # post"
    and pre: "\<forall>x \<in> set pre. (\<forall>w. Waiting (cs_State x) = Some w \<longrightarrow> w_Reason w = [])
                \<and> Terminated (cs_State x) = None"
    and completed: "\<forall>w. Waiting (cs_State c) = Some w \<longrightarrow> w_Reason w = []"
      "Terminated (cs_State c) = Some t" "t_Reason t = ''Completed''"
    and running: "r \<in> set (status_ContainerStatuses (pod_Status pod))"
      "\<forall>w. Waiting (cs_State r) = Some w \<longrightarrow> w_Reason w = []"
      "Terminated (cs_State r) = None" "cs_Ready r" "Running (cs_State r) \<noteq> None"
    and notReady: "\<not> hasPodReadyCondition (status_Conditions (pod_Status pod))"
    and notLost: "IsZero (pod_DeletionTimestamp pod)
                  \<or> status_Reason (pod_Status pod) \<noteq> NodeUnreachablePodReason"
  shows "\<exists>row. printPod env pod = ([row], None) \<and> Cells row ! 2 = S ''NotReady''"
proof -
  let ?start = "(podVarsAfterInit pod)\<lparr>restarts := restartableInitContainerRestarts (podVarsAfterInit pod),
                lastRestartDate := lastRestartableInitContainerRestartDate (podVarsAfterInit pod),
                hasRunning := False\<rparr>"
  let ?v = "containerStatusesLoop (rev (status_ContainerStatuses (pod_Status pod))) ?start"
  have "?v = containerStatusesLoop (rev pre)
               (containerStatusStep c (containerStatusesLoop (rev post) ?start))"
    by (simp add: statuses containerStatusesLoop_append)
  then have "reason ?v = reason (containerStatusStep c (containerStatusesLoop (rev post) ?start))"
    using pre by (simp add: loop_silent_reason)
  then have rsn: "reason ?v = ''Completed''"
    using completed by (simp add: step_completed)
  have "r \<in> set (rev (status_ContainerStatuses (pod_Status pod)))"
    using running(1) by simp
  then have run: "hasRunning ?v"
    using running(2-5) by (rule loop_running)
  have "reason (podVarsAfterContainers pod) = ''NotReady''"
    using gate rsn run notReady by (auto simp add: podVarsAfterContainers_def Let_def)
  moreover have "IsPodPhaseTerminal (status_Phase (pod_Status pod))"
    using phase by (simp add: IsPodPhaseTerminal_def)
  ultimately have "reason (podVars pod) = ''NotReady''"
    using notLost by (auto simp add: podVars_def Let_def)
  then show ?thesis
    by (simp add: printPod_def Let_def)
qed

lemma initContainersLoop_lookup:
  "fst (initContainersLoop cs (m, k)) name = Some ic \<Longrightarrow> ic \<in> set cs \<or> m name = Some ic"
proof (induction cs arbitrary: m k)
  case Nil
  then show ?case by simp
next
  case (Cons a cs)
  from Cons.prems obtain k' where
    "fst (initContainersLoop cs (m(c_Name a \<mapsto> a), k')) name = Some ic"
    by (auto split: if_splits)
  from Cons.IH [OF this] show ?case
    by (auto split: if_splits)
qed

lemma podVarsAfterInit_ContainerStatuses:
  "podVarsAfterInit (pod\<lparr>pod_Status := (pod_Status pod)\<lparr>status_ContainerStatuses := cs'\<rparr>\<rparr>)
     = podVarsAfterInit pod"
  by (simp add: podVarsAfterInit_def)

text \<open>
  C2 (amended). For a Pod that is not being deleted, whose Initialized condition is not
  true and whose sole init container status is terminated with exit code 2, signal 0 and
  no reason, that init container not being a started restart-always one: \<open>printPod\<close>
  reports the reason \<open>Init:ExitCode:2\<close>, the pod counts as initializing, and the row
  is the same whatever the statuses of the main containers are (they are not scanned).
\<close>

theorem printPod_init_exit_code_short_circuits:
  assumes sole: "status_InitContainerStatuses (pod_Status pod) = [c]"
    and tm: "Terminated (cs_State c) = Some t"
    and ec: "t_ExitCode t = 2" "t_Signal t = 0" "t_Reason t = []"
    and notInit: "\<not> isPodInitializedConditionTrue (pod_Status pod)"
    and notSidecar: "cs_Started c \<noteq> Some True
        \<or> (\<forall>ic \<in> set (spec_InitContainers (pod_Spec pod)).
              c_RestartPolicy ic \<noteq> Some ContainerRestartPolicyAlways)"
    and notDeleted: "IsZero (pod_DeletionTimestamp pod)"
  shows "(\<exists>row. printPod env pod = ([row], None) \<and> Cells row ! 2 = S ''Init:ExitCode:2'')
     \<and> initializing (podVarsAfterInit pod)
     \<and> (\<forall>cs'. printPod env (pod\<lparr>pod_Status := (pod_Status pod)\<lparr>status_ContainerStatuses := cs'\<rparr>\<rparr>)
               = printPod env pod)"
proof -
  let ?m = "fst (initContainersLoop (spec_InitContainers (pod_Spec pod)) (Map.empty, 0))"
  have ns: "\<not> (IsRestartableInitContainer (?m (cs_Name c)) \<and> cs_Started c = Some True)"
  proof
    assume a: "IsRestartableInitContainer (?m (cs_Name c)) \<and> cs_Started c = Some True"
    then obtain ic where ic: "?m (cs_Name c) = Some ic"
      "c_RestartPolicy ic = Some ContainerRestartPolicyAlways"
      by (auto simp: IsRestartableInitContainer_def split: option.splits)
    then have "ic \<in> set (spec_InitContainers (pod_Spec pod))"
      using initContainersLoop_lookup [of "spec_InitContainers (pod_Spec pod)" Map.empty 0 "cs_Name c" ic]
      by simp
    then show False using notSidecar a ic by auto
  qed
  have nz: "t_ExitCode t \<noteq> 0" using ec by simp
  have init: "initializing (podVarsAfterInit pod)"
    and rsn: "reason (podVarsAfterInit pod) = ''Init:ExitCode:2''"
    using sole tm ec nz ns
    by (auto simp: podVarsAfterInit_def Let_def Itoa_digits split: option.splits)
  have after: "podVarsAfterContainers pod = podVarsAfterInit pod"
    using init notInit by (simp add: podVarsAfterContainers_def Let_def)
  have final: "podVars pod = podVarsAfterInit pod"
    using after notDeleted by (simp add: podVars_def Let_def)
  have cell: "\<exists>row. printPod env pod = ([row], None) \<and> Cells row ! 2 = S ''Init:ExitCode:2''"
    using final rsn by (simp add: printPod_def Let_def)
  have indep: "printPod env (pod\<lparr>pod_Status := (pod_Status pod)\<lparr>status_ContainerStatuses := cs'\<rparr>\<rparr>)
               = printPod env pod" for cs'
  proof -
    let ?pod' = "pod\<lparr>pod_Status := (pod_Status pod)\<lparr>status_ContainerStatuses := cs'\<rparr>\<rparr>"
    have i': "podVarsAfterInit ?pod' = podVarsAfterInit pod"
      by (rule podVarsAfterInit_ContainerStatuses)
    have n': "\<not> isPodInitializedConditionTrue (pod_Status ?pod')"
      using notInit by (simp add: isPodInitializedConditionTrue_def)
    have "podVarsAfterContainers ?pod' = podVarsAfterInit pod"
      using init n' i' by (simp add: podVarsAfterContainers_def Let_def del: Pod.simps PodStatus.simps)
    then have "podVarsAfterContainers ?pod' = podVarsAfterContainers pod"
      using after by simp
    then have "podVars ?pod' = podVars pod"
      by (simp add: podVars_def Let_def)
    then show ?thesis
      by (simp add: printPod_def Let_def)
  qed
  show ?thesis using cell init indep by blast
qed

text \<open>
  C4 (amended). The Restarts cell of \<open>printPod\<close> is \<open><n> (<duration> ago)\<close> when
  the restart count \<open>n\<close> is not 0 and the last-restart timestamp is known (not zero),
  \<open><duration>\<close> being the humanized time since that timestamp; otherwise it is the
  plain restart count.
\<close>

theorem printPod_restarts_cell:
  "\<exists>row. printPod env pod = ([row], None)
     \<and> Cells row ! 3 =
         S (if restarts (podVars pod) \<noteq> 0 \<and> lastRestartDate (podVars pod) \<noteq> 0
            then Itoa (restarts (podVars pod)) @ '' (''
                   @ HumanDuration env (Since env (lastRestartDate (podVars pod))) @ '' ago)''
            else Itoa (restarts (podVars pod)))"
  by (simp add: printPod_def Let_def translateTimestampSince_def)

lemmas example_defs =
  exampleEnv_def stateNone_def stateRunning_def stateWaiting_def stateTerminated_def
  examplePod_def succeededRunningPod_def completedSidecarPod_def initFailedStatus_def
  crashLoopStatus_def initFailedInitializedPod_def initFailedPod_def
  terminatedOnceStatus_def neverRestartedPod_def restartedPod_def

lemmas pod_defs =
  printPod_def podVars_def podVarsAfterContainers_def podVarsAfterInit_def
  containerStatusStep_def isPodInitializedConditionTrue_def IsRestartableInitContainer_def
  IsPodPhaseTerminal_def IsZero_def translateTimestampSince_def Since_def Sub_def
  maxDuration_def minDuration_def podSuccessConditions_def podFailedConditions_def
  PodSucceeded_def PodFailed_def PodScheduled_def PodReady_def PodInitialized_def
  PodReasonSchedulingGated_def ContainerRestartPolicyAlways_def RowCompleted_def
  NodeUnreachablePodReason_def ConditionTrue_def

text \<open>
  C1 as stated fails: phase Succeeded, the only container ready and Running, the Ready
  condition false; the reason is the phase, \<open>Succeeded\<close>.
\<close>

theorem printPod_succeeded_running_counterexample:
  "status_Phase (pod_Status succeededRunningPod) = PodSucceeded
   \<and> Running (cs_State (hd (status_ContainerStatuses (pod_Status succeededRunningPod)))) \<noteq> None
   \<and> \<not> hasPodReadyCondition (status_Conditions (pod_Status succeededRunningPod))
   \<and> printPod exampleEnv succeededRunningPod =
       ([\<lparr>Cells = [S ''p'', S ''1/1'', S ''Succeeded'', S ''0'', S ''<unknown>'',
                    S ''<none>'', S ''<none>'', S ''<none>'', S ''<none>''],
          Conditions = podSuccessConditions\<rparr>], None)"
  by (simp add: example_defs pod_defs Let_def Itoa_digits)

text \<open>
  C2 as stated fails: with the Initialized condition true the main containers are
  scanned although the sole init container failed with exit code 2, and the reason is
  that of the waiting main container.
\<close>

theorem printPod_init_exit_code_counterexample:
  "status_InitContainerStatuses (pod_Status initFailedInitializedPod) = [initFailedStatus]
   \<and> Terminated (cs_State initFailedStatus)
       = Some \<lparr>t_ExitCode = 2, t_Signal = 0, t_Reason = [], t_FinishedAt = 500\<rparr>
   \<and> printPod exampleEnv initFailedInitializedPod =
       ([\<lparr>Cells = [S ''p'', S ''0/1'', S ''CrashLoopBackOff'', S ''0'', S ''<unknown>'',
                    S ''<none>'', S ''<none>'', S ''<none>'', S ''<none>''],
          Conditions = []\<rparr>], None)"
  by (simp add: example_defs pod_defs Let_def Itoa_digits)

text \<open>
  C4 as stated fails: the last-restart timestamp is known (500) and the restart count is
  0; the cell is the plain \<open>0\<close>.
\<close>

theorem printPod_restarts_cell_counterexample:
  "lastRestartDate (podVars neverRestartedPod) = 500
   \<and> printPod exampleEnv neverRestartedPod =
       ([\<lparr>Cells = [S ''p'', S ''1/1'', S ''Running'', S ''0'', S ''<unknown>'',
                    S ''<none>'', S ''<none>'', S ''<none>'', S ''<none>''],
          Conditions = []\<rparr>], None)"
  by (simp add: example_defs pod_defs Let_def Itoa_digits)

text \<open>One container completed, a sidecar ready and running, Ready false.\<close>

theorem printPod_completed_running_not_ready_witness:
  "\<exists>row. printPod exampleEnv completedSidecarPod = ([row], None)
     \<and> Cells row ! 2 = S ''NotReady''"
  by (rule printPod_completed_running_not_ready [where pre = "[]"
        and c = "\<lparr>cs_Name = ''main'', cs_State = stateTerminated 0 ''Completed'' 500,
                  cs_LastTerminationState = stateNone,
                  cs_Ready = False, cs_RestartCount = 0, cs_Started = Some False\<rparr>"
        and post = "[\<lparr>cs_Name = ''sidecar'', cs_State = stateRunning,
                      cs_LastTerminationState = stateNone,
                      cs_Ready = True, cs_RestartCount = 0, cs_Started = Some True\<rparr>]"
        and t = "\<lparr>t_ExitCode = 0, t_Signal = 0, t_Reason = ''Completed'', t_FinishedAt = 500\<rparr>"
        and r = "\<lparr>cs_Name = ''sidecar'', cs_State = stateRunning,
                  cs_LastTerminationState = stateNone,
                  cs_Ready = True, cs_RestartCount = 0, cs_Started = Some True\<rparr>"])
     (simp_all add: example_defs pod_defs Let_def)

text \<open>The sole init container failed with exit code 2 and the Initialized condition is false.\<close>

theorem printPod_init_exit_code_short_circuits_witness:
  "(\<exists>row. printPod exampleEnv initFailedPod = ([row], None)
      \<and> Cells row ! 2 = S ''Init:ExitCode:2'')
   \<and> initializing (podVarsAfterInit initFailedPod)
   \<and> (\<forall>cs'. printPod exampleEnv
               (initFailedPod\<lparr>pod_Status :=
                  (pod_Status initFailedPod)\<lparr>status_ContainerStatuses := cs'\<rparr>\<rparr>)
             = printPod exampleEnv initFailedPod)"
  by (rule printPod_init_exit_code_short_circuits [where c = initFailedStatus
        and t = "\<lparr>t_ExitCode = 2, t_Signal = 0, t_Reason = [], t_FinishedAt = 500\<rparr>"])
     (simp_all add: example_defs pod_defs Let_def)

text \<open>Three restarts, the last termination at 500.\<close>

theorem printPod_restarts_cell_witness:
  "\<exists>row. printPod exampleEnv restartedPod = ([row], None)
     \<and> Cells row ! 3 = S ''3 (1s ago)''"
proof -
  have v: "restarts (podVars restartedPod) = 3" "lastRestartDate (podVars restartedPod) = 500"
    by (simp_all add: example_defs pod_defs Let_def)
  from printPod_restarts_cell [of exampleEnv restartedPod] show ?thesis
    by (simp add: v Itoa_digits exampleEnv_def)
qed

end
